theory Spec2Isabelle
  imports Main "HOL-Library.Word" "HOL-Library.Sublist"
begin

section \<open>JavaScript values used by the handlers\<close>

text \<open>
  A string is a list of code units, those below 256 (a \<open>char\<close> has 8 bits); every
  string constant of the source is ASCII.
  A number is a double with an integer value, \<open>NaN\<close>, or an infinity: every number the
  handlers compute comes from \<open>parseInt\<close>, a length or a clock reading. Negative zero is
  not told apart from zero (both are falsy and compare equal). An integer that no double
  holds is rounded by \<open>to_double\<close> before it becomes a number.
\<close>

type_synonym byte = "8 word"
type_synonym buffer = "byte list"

datatype jsnum = NaN | Num int | PosInf | NegInf

subsection \<open>The double nearest to an integer\<close>

text \<open>
  A double holds 53 significant bits. \<open>shift53 n\<close> is the number of low bits of \<open>n\<close> that
  do not fit; \<open>round_nat\<close> rounds them away, to the nearest and on a tie to the even
  neighbour. From \<open>2 ^ 1024\<close> on the result is an infinity.
\<close>

fun shift53 :: "nat \<Rightarrow> nat" where
  "shift53 n = (if n < 9007199254740992 then 0 else Suc (shift53 (n div 2)))"

declare shift53.simps [simp del]

definition round_nat :: "nat \<Rightarrow> nat" where
  "round_nat n =
     (let e = shift53 n;
          q = n div 2 ^ e;
          r = n mod 2 ^ e;
          up = (2 ^ e < 2 * r \<or> (2 * r = 2 ^ e \<and> odd q))
      in (if up then q + 1 else q) * 2 ^ e)"

definition to_double :: "int \<Rightarrow> jsnum" where
  "to_double i =
     (if \<bar>i\<bar> \<le> 9007199254740992 then Num i
      else
        let m = round_nat (nat \<bar>i\<bar>) in
        if 2 ^ 1024 \<le> m then (if i < 0 then NegInf else PosInf)
        else Num (if i < 0 then - int m else int m))"

text \<open>A thrown value: an \<open>Error\<close> with its message, or something that is not an \<open>Error\<close>.\<close>

datatype exn = Error string | NonError

datatype json =
    JNull
  | JBool bool
  | JNum jsnum
  | JStr string
  | JArr "json list"
  | JObj "(string \<times> json) list"

text \<open>\<open>a || b\<close> where \<open>a\<close> is a string, \<open>null\<close> or \<open>undefined\<close>: the empty string is falsy.\<close>

definition or_str :: "string option \<Rightarrow> string \<Rightarrow> string" where
  "or_str a b = (case a of None \<Rightarrow> b | Some s \<Rightarrow> if s = [] then b else s)"

text \<open>\<open>a || b\<close> where both sides may be missing.\<close>

definition or_opt :: "string option \<Rightarrow> string option \<Rightarrow> string option" where
  "or_opt a b = (case a of None \<Rightarrow> b | Some s \<Rightarrow> if s = [] then b else Some s)"

text \<open>
  \<open>q || 80\<close> on an optional number: \<open>undefined\<close>, \<open>NaN\<close> and \<open>0\<close> are falsy, every other
  number is truthy.
\<close>

definition or_num :: "jsnum option \<Rightarrow> jsnum \<Rightarrow> jsnum" where
  "or_num a b =
     (case a of
        None \<Rightarrow> b
      | Some NaN \<Rightarrow> b
      | Some (Num k) \<Rightarrow> if k = 0 then b else Num k
      | Some PosInf \<Rightarrow> PosInf
      | Some NegInf \<Rightarrow> NegInf)"

text \<open>\<open>a + b\<close>: the sum is rounded to a double; opposite infinities give \<open>NaN\<close>.\<close>

definition js_add :: "jsnum \<Rightarrow> jsnum \<Rightarrow> jsnum" where
  "js_add a b =
     (case a of
        NaN \<Rightarrow> NaN
      | Num x \<Rightarrow> (case b of NaN \<Rightarrow> NaN | Num y \<Rightarrow> to_double (x + y)
                   | PosInf \<Rightarrow> PosInf | NegInf \<Rightarrow> NegInf)
      | PosInf \<Rightarrow> (case b of NaN \<Rightarrow> NaN | Num y \<Rightarrow> PosInf
                    | PosInf \<Rightarrow> PosInf | NegInf \<Rightarrow> NaN)
      | NegInf \<Rightarrow> (case b of NaN \<Rightarrow> NaN | Num y \<Rightarrow> NegInf
                    | PosInf \<Rightarrow> NaN | NegInf \<Rightarrow> NegInf))"

text \<open>\<open>Math.min(a, b)\<close>: \<open>NaN\<close> when either argument is.\<close>

definition js_min :: "jsnum \<Rightarrow> jsnum \<Rightarrow> jsnum" where
  "js_min a b =
     (case a of
        NaN \<Rightarrow> NaN
      | Num x \<Rightarrow> (case b of NaN \<Rightarrow> NaN | Num y \<Rightarrow> Num (min x y)
                   | PosInf \<Rightarrow> Num x | NegInf \<Rightarrow> NegInf)
      | PosInf \<Rightarrow> b
      | NegInf \<Rightarrow> (case b of NaN \<Rightarrow> NaN | Num y \<Rightarrow> NegInf
                    | PosInf \<Rightarrow> NegInf | NegInf \<Rightarrow> NegInf))"

text \<open>\<open>a > b\<close>: false when either side is \<open>NaN\<close>.\<close>

definition js_gt :: "jsnum \<Rightarrow> jsnum \<Rightarrow> bool" where
  "js_gt a b =
     (case a of
        NaN \<Rightarrow> False
      | Num x \<Rightarrow> (case b of NaN \<Rightarrow> False | Num y \<Rightarrow> y < x
                   | PosInf \<Rightarrow> False | NegInf \<Rightarrow> True)
      | PosInf \<Rightarrow> (case b of NaN \<Rightarrow> False | Num y \<Rightarrow> True
                    | PosInf \<Rightarrow> False | NegInf \<Rightarrow> True)
      | NegInf \<Rightarrow> False)"

text \<open>Truthiness of a JSON value (\<open>!key\<close> in the deletion handler).\<close>

fun truthy :: "json \<Rightarrow> bool" where
  "truthy JNull = False"
| "truthy (JBool b) = b"
| "truthy (JNum NaN) = False"
| "truthy (JNum (Num k)) = (k \<noteq> 0)"
| "truthy (JNum PosInf) = True"
| "truthy (JNum NegInf) = True"
| "truthy (JStr s) = (s \<noteq> [])"
| "truthy (JArr _) = True"
| "truthy (JObj _) = True"

subsection \<open>\<open>parseInt\<close> with no radix\<close>

text \<open>
  Leading white space is skipped, a sign and a \<open>0x\<close> prefix are read, then the longest
  run of digits; the integer they write is rounded to a double. (For more than 20
  decimal digits the language lets an engine read the later digits as zeros; the
  rounding here is of the integer as written.)
\<close>

definition is_ws :: "char \<Rightarrow> bool" where
  "is_ws c = ((of_char c :: nat) \<in> {9, 10, 11, 12, 13, 32, 160})"

definition digit_val :: "char \<Rightarrow> nat option" where
  "digit_val c =
     (let n = (of_char c :: nat) in
      if 48 \<le> n \<and> n \<le> 57 then Some (n - 48)
      else if 97 \<le> n \<and> n \<le> 102 then Some (n - 87)
      else if 65 \<le> n \<and> n \<le> 70 then Some (n - 55)
      else None)"

definition is_digit :: "nat \<Rightarrow> char \<Rightarrow> bool" where
  "is_digit radix c = (case digit_val c of None \<Rightarrow> False | Some d \<Rightarrow> d < radix)"

definition digits_value :: "nat \<Rightarrow> string \<Rightarrow> nat" where
  "digits_value radix z = foldl (\<lambda>acc c. acc * radix + (case digit_val c of None \<Rightarrow> 0 | Some d \<Rightarrow> d)) 0 z"

definition parse_digits :: "int \<Rightarrow> nat \<Rightarrow> string \<Rightarrow> jsnum" where
  "parse_digits sign radix s =
     (let z = takeWhile (is_digit radix) s in
      if z = [] then NaN else to_double (sign * int (digits_value radix z)))"

definition parse_radix :: "int \<Rightarrow> string \<Rightarrow> jsnum" where
  "parse_radix sign s =
     (if take 2 s = ''0x'' \<or> take 2 s = ''0X'' then parse_digits sign 16 (drop 2 s)
      else parse_digits sign 10 s)"

definition parseInt :: "string \<Rightarrow> jsnum" where
  "parseInt str =
     (let s = dropWhile is_ws str in
      case s of
        [] \<Rightarrow> NaN
      | c # rest \<Rightarrow>
          if c = CHR ''-'' then parse_radix (- 1) rest
          else if c = CHR ''+'' then parse_radix 1 rest
          else parse_radix 1 s)"

subsection \<open>Numbers and bytes as text\<close>

definition digit_char :: "nat \<Rightarrow> char" where
  "digit_char d = (''0123456789abcdef'' ! d)"

fun dec_nat :: "nat \<Rightarrow> string" where
  "dec_nat n = (if n < 10 then [digit_char n] else dec_nat (n div 10) @ [digit_char (n mod 10)])"

declare dec_nat.simps [simp del]

text \<open>
  A number in a template literal. An integer below \<open>10 ^ 21\<close> in absolute value prints as
  its decimal digits; a clock reading is far below that.
\<close>

definition num_to_string :: "int \<Rightarrow> string" where
  "num_to_string i = (if i < 0 then CHR ''-'' # dec_nat (nat (- i)) else dec_nat (nat i))"

text \<open>\<open>buf.toString('hex')\<close>: two lower-case hexadecimal digits per byte.\<close>

definition hex_byte :: "byte \<Rightarrow> string" where
  "hex_byte b = [digit_char (unat b div 16), digit_char (unat b mod 16)]"

definition to_hex :: "buffer \<Rightarrow> string" where
  "to_hex buf = concat (map hex_byte buf)"

subsection \<open>\<open>Array.prototype.slice\<close>\<close>

text \<open>
  A relative index: \<open>NaN\<close> counts as 0, a negative index counts from the end, and the
  result is clamped to the length (so an infinity is 0 or the length).
\<close>

definition rel_index :: "nat \<Rightarrow> jsnum \<Rightarrow> nat" where
  "rel_index len i =
     (case i of
        NaN \<Rightarrow> 0
      | Num k \<Rightarrow> if k < 0 then nat (max (int len + k) 0) else min (nat k) len
      | PosInf \<Rightarrow> len
      | NegInf \<Rightarrow> 0)"

definition js_slice :: "'a list \<Rightarrow> jsnum \<Rightarrow> jsnum \<Rightarrow> 'a list" where
  "js_slice xs start end' =
     (let k = rel_index (length xs) start;
          final = rel_index (length xs) end'
      in take (final - k) (drop k xs))"

section \<open>The outside world\<close>

text \<open>
  The commands sent to the object store, and what it answers. The store, the codec,
  the MIME table, the clock and the random source are libraries outside the repository:
  each is a field of the environment, and a handler returns the calls it made next to
  its result.
\<close>

datatype s3_command =
    PutObjectCommand string string buffer string string
      \<comment> \<open>Bucket, Key, Body, ContentType, CacheControl\<close>
  | DeleteObjectCommand string json
      \<comment> \<open>Bucket, Key\<close>
  | ListObjectsV2Command string string jsnum
      \<comment> \<open>Bucket, Prefix, MaxKeys\<close>

record s3_object =
  Key :: string
  Size :: "int option"
  LastModified :: "int option"

datatype s3_output =
    PutObjectOutput
  | DeleteObjectOutput
  | ListObjectsV2Output "s3_object list option"
      \<comment> \<open>Contents, which may be missing\<close>

datatype effect =
    Store s3_command
  | Codec buffer jsnum
      \<comment> \<open>\<open>sharp(buffer).webp({quality}).toBuffer()\<close>\<close>

record env =
  meta_env :: "string \<rightharpoonup> string"
  process_env :: "string \<rightharpoonup> string"
  now :: int
  randomBytes :: "nat \<Rightarrow> buffer"
  mime_extension :: "string \<Rightarrow> string option"
  mime_lookup :: "string \<Rightarrow> string option"
  sharp_webp :: "buffer \<Rightarrow> jsnum \<Rightarrow> exn + buffer"
  s3_send :: "s3_command \<Rightarrow> exn + s3_output"
  null_destructure :: exn
    \<comment> \<open>the TypeError the engine throws when \<open>null\<close> is destructured\<close>

text \<open>\<open>import.meta.env[key] || process.env[key]\<close>\<close>

definition getValue :: "env \<Rightarrow> string \<Rightarrow> string option" where
  "getValue e k = or_opt (meta_env e k) (process_env e k)"

section \<open>Requests and responses\<close>

record File =
  file_name :: string
  file_type :: string
  file_bytes :: buffer

definition file_size :: "File \<Rightarrow> jsnum" where
  "file_size f = Num (int (length (file_bytes f)))"

datatype form_value = FormString string | FormFile File

text \<open>
  What a handler can read of a request: the cookies, the query parameters in order, and
  the body as \<open>request.formData()\<close> and \<open>request.json()\<close> give it (either may throw).
\<close>

record APIContext =
  cookies :: "string \<rightharpoonup> string"
  searchParams :: "(string \<times> string) list"
  formData :: "exn + (string \<times> form_value) list"
  jsonBody :: "exn + json"

record ImageInfo =
  key :: string
  url :: string
  size' :: int
  mimeType :: string
  uploadedAt :: int

datatype response_body =
    AuthStatus bool
      \<comment> \<open>\<open>{authenticated}\<close>\<close>
  | ErrorBody string
      \<comment> \<open>\<open>{error}\<close>\<close>
  | ErrorDetails string string
      \<comment> \<open>\<open>{error, details}\<close>\<close>
  | SizeLimitError jsnum
      \<comment> \<open>\<open>{error: `File size exceeds limit of ${maxSize / 1024 / 1024}MB`}\<close>, kept as \<open>maxSize\<close>\<close>
  | SuccessMessage string
      \<comment> \<open>\<open>{success: true, message}\<close>\<close>
  | SuccessImage ImageInfo
      \<comment> \<open>\<open>{success: true, data}\<close>\<close>
  | SuccessImages "ImageInfo list"

record Response =
  status :: nat
  body :: response_body

section \<open>\<open>lib/auth.ts\<close>\<close>

definition isAuthenticated :: "APIContext \<Rightarrow> bool" where
  "isAuthenticated context =
     (case cookies context ''auth-token'' of
        None \<Rightarrow> False
      | Some v \<Rightarrow> v \<noteq> [])"

definition requireAuth :: "APIContext \<Rightarrow> Response option" where
  "requireAuth context =
     (if \<not> isAuthenticated context
      then Some \<lparr>status = 401, body = ErrorBody ''Authentication required''\<rparr>
      else None)"

section \<open>\<open>pages/api/auth\<close>\<close>

definition verify_GET :: "APIContext \<Rightarrow> Response" where
  "verify_GET context =
     (let authenticated = isAuthenticated context
      in \<lparr>status = (if authenticated then 200 else 401), body = AuthStatus authenticated\<rparr>)"

text \<open>
  Logout deletes the cookie: the handler returns its response and the cookies the
  client holds afterwards.
\<close>

definition logout_POST :: "APIContext \<Rightarrow> Response \<times> (string \<rightharpoonup> string)" where
  "logout_POST context =
     (\<lparr>status = 200, body = SuccessMessage ''Logout successful''\<rparr>,
      (cookies context)(''auth-token'' := None))"

definition generateAuthToken :: "env \<Rightarrow> string" where
  "generateAuthToken e = to_hex (randomBytes e 32)"

text \<open>
  Login. Destructuring \<open>{password}\<close> throws on \<open>null\<close>; on any other value that is not an
  object the password is \<open>undefined\<close>. A \<open>JObj\<close> lists the properties of the parsed object,
  each name once. The cookie's attributes (http-only, same-site,
  24 hours) are for the browser; no handler reads them.
\<close>

definition json_field :: "json \<Rightarrow> string \<Rightarrow> json option" where
  "json_field j k = (case j of JObj kvs \<Rightarrow> map_of kvs k | _ \<Rightarrow> None)"

definition login_POST :: "env \<Rightarrow> APIContext \<Rightarrow> Response \<times> (string \<rightharpoonup> string)" where
  "login_POST e context =
     (case jsonBody context of
        Inl err \<Rightarrow> (\<lparr>status = 500, body = ErrorBody ''Internal server error''\<rparr>, cookies context)
      | Inr JNull \<Rightarrow> (\<lparr>status = 500, body = ErrorBody ''Internal server error''\<rparr>, cookies context)
      | Inr j \<Rightarrow>
          (case getValue e ''ADMIN_PASSWORD'' of
             None \<Rightarrow>
               (\<lparr>status = 500,
                 body = ErrorBody ''Server configuration error: ADMIN_PASSWORD not set''\<rparr>,
                cookies context)
           | Some adminPassword \<Rightarrow>
               if adminPassword = []
               then (\<lparr>status = 500,
                      body = ErrorBody ''Server configuration error: ADMIN_PASSWORD not set''\<rparr>,
                     cookies context)
               else if json_field j ''password'' \<noteq> Some (JStr adminPassword)
               then (\<lparr>status = 401, body = ErrorBody ''Invalid password''\<rparr>, cookies context)
               else (\<lparr>status = 200, body = SuccessMessage ''Login successful''\<rparr>,
                     (cookies context)(''auth-token'' \<mapsto> generateAuthToken e))))"

section \<open>\<open>lib/r2.ts\<close>\<close>

record R2Config =
  accountId :: string
  accessKeyId :: string
  secretAccessKey :: string
  bucketName :: string
  endpoint :: string
  publicUrl :: string

record UploadOptions =
  useHashName :: "bool option"
  compressToWebp :: "bool option"
  quality :: "jsnum option"

definition getR2Config :: "env \<Rightarrow> R2Config" where
  "getR2Config e =
     \<lparr>accountId = or_str (getValue e ''R2_ACCOUNT_ID'') [],
      accessKeyId = or_str (getValue e ''R2_ACCESS_KEY_ID'') [],
      secretAccessKey = or_str (getValue e ''R2_SECRET_ACCESS_KEY'') [],
      bucketName = or_str (getValue e ''R2_BUCKET_NAME'') [],
      endpoint = or_str (getValue e ''R2_ENDPOINT'') [],
      publicUrl = or_str (getValue e ''R2_PUBLIC_URL'') []\<rparr>"

subsection \<open>Naming\<close>

text \<open>\<open>originalName.split('.').pop()\<close>: what follows the last dot, or the whole name.\<close>

definition last_segment :: "string \<Rightarrow> string" where
  "last_segment s = rev (takeWhile (\<lambda>c. c \<noteq> CHR ''.'') (rev s))"

text \<open>The character class \<open>[a-zA-Z0-9.-]\<close>.\<close>

definition name_char :: "char \<Rightarrow> bool" where
  "name_char c =
     (let n = (of_char c :: nat) in
      (97 \<le> n \<and> n \<le> 122) \<or> (65 \<le> n \<and> n \<le> 90) \<or> (48 \<le> n \<and> n \<le> 57)
      \<or> c = CHR ''.'' \<or> c = CHR ''-'')"

text \<open>\<open>originalName.replace(/[^a-zA-Z0-9.-]/g, '_')\<close>\<close>

definition cleanName :: "string \<Rightarrow> string" where
  "cleanName originalName = map (\<lambda>c. if name_char c then c else CHR ''_'') originalName"

definition generateFileName :: "env \<Rightarrow> string \<Rightarrow> bool \<Rightarrow> string" where
  "generateFileName e originalName useHash =
     (let ext = or_str (Some (last_segment originalName)) [] in
      if useHash then to_hex (randomBytes e 16) @ ''.'' @ ext
      else num_to_string (now e) @ ''_'' @ cleanName originalName)"

subsection \<open>Normalizing an image\<close>

record Processed =
  p_buffer :: buffer
  p_mimeType :: string
  p_ext :: string

definition startsWith :: "string \<Rightarrow> string \<Rightarrow> bool" where
  "startsWith s p = prefix p s"

definition unprocessed :: "env \<Rightarrow> buffer \<Rightarrow> string \<Rightarrow> Processed" where
  "unprocessed e buffer mime =
     \<lparr>p_buffer = buffer, p_mimeType = mime, p_ext = or_str (mime_extension e mime) ''bin''\<rparr>"

definition processImage ::
  "env \<Rightarrow> buffer \<Rightarrow> string \<Rightarrow> UploadOptions \<Rightarrow> Processed \<times> effect list" where
  "processImage e buffer mime options =
     (if compressToWebp options \<noteq> Some True \<or> \<not> startsWith mime ''image/''
      then (unprocessed e buffer mime, [])
      else
        let q = or_num (quality options) (Num 80) in
        case sharp_webp e buffer q of
          Inr webpBuffer \<Rightarrow>
            (\<lparr>p_buffer = webpBuffer, p_mimeType = ''image/webp'', p_ext = ''webp''\<rparr>,
             [Codec buffer q])
        | Inl err \<Rightarrow> (unprocessed e buffer mime, [Codec buffer q]))"

subsection \<open>Upload, deletion, listing\<close>

text \<open>
  \<open>originalName.replace(/\.[^/.]+$/, `.${ext}`)\<close>: the pattern can match only at the last
  dot, when what follows it is not empty and holds no slash. The extension is put in as
  it is (an extension of the MIME table holds no dollar sign).
\<close>

definition replace_ext :: "string \<Rightarrow> string \<Rightarrow> string" where
  "replace_ext originalName ext =
     (let suffix = last_segment originalName in
      if length suffix < length originalName \<and> suffix \<noteq> [] \<and> CHR ''/'' \<notin> set suffix
      then take (length originalName - length suffix - 1) originalName @ ''.'' @ ext
      else originalName)"

datatype upload_source = FromFile File | FromBuffer buffer

definition uploadImage ::
  "env \<Rightarrow> R2Config \<Rightarrow> upload_source \<Rightarrow> string \<Rightarrow> UploadOptions
     \<Rightarrow> (exn + ImageInfo) \<times> effect list" where
  "uploadImage e config src originalName options =
     (let (buffer, mime, origName) =
            (case src of
               FromFile f \<Rightarrow> (file_bytes f, file_type f, file_name f)
             | FromBuffer b \<Rightarrow>
                 (b, or_str (mime_lookup e originalName) ''application/octet-stream'',
                  originalName));
          (processed, fx) = processImage e buffer mime options;
          fileName = generateFileName e (replace_ext origName (p_ext processed))
                       (useHashName options = Some True);
          command = PutObjectCommand (bucketName config) fileName (p_buffer processed)
                      (p_mimeType processed) ''public, max-age=31536000''
      in case s3_send e command of
           Inl err \<Rightarrow> (Inl err, fx @ [Store command])
         | Inr out \<Rightarrow>
             (Inr \<lparr>key = fileName,
                   url = publicUrl config @ ''/'' @ fileName,
                   size' = int (length (p_buffer processed)),
                   mimeType = p_mimeType processed,
                   uploadedAt = now e\<rparr>,
              fx @ [Store command]))"

definition deleteImage :: "env \<Rightarrow> R2Config \<Rightarrow> json \<Rightarrow> (exn + unit) \<times> effect list" where
  "deleteImage e config k =
     (let command = DeleteObjectCommand (bucketName config) k
      in case s3_send e command of
           Inl err \<Rightarrow> (Inl err, [Store command])
         | Inr out \<Rightarrow> (Inr (), [Store command]))"

definition imageInfo :: "env \<Rightarrow> R2Config \<Rightarrow> s3_object \<Rightarrow> ImageInfo" where
  "imageInfo e config object =
     \<lparr>key = Key object,
      url = publicUrl config @ ''/'' @ Key object,
      size' = (case Size object of None \<Rightarrow> 0 | Some n \<Rightarrow> n),
      mimeType = or_str (mime_lookup e (Key object)) ''application/octet-stream'',
      uploadedAt = (case LastModified object of None \<Rightarrow> now e | Some t \<Rightarrow> t)\<rparr>"

text \<open>\<open>response.Contents || []\<close>\<close>

definition contents_of :: "s3_output \<Rightarrow> s3_object list" where
  "contents_of out = (case out of ListObjectsV2Output (Some objects) \<Rightarrow> objects | _ \<Rightarrow> [])"

definition listImages ::
  "env \<Rightarrow> R2Config \<Rightarrow> string \<Rightarrow> jsnum \<Rightarrow> jsnum \<Rightarrow> (exn + ImageInfo list) \<times> effect list" where
  "listImages e config pfx maxKeys offset =
     (let fetchLimit = js_add maxKeys offset;
          command = ListObjectsV2Command (bucketName config) pfx (js_min fetchLimit (Num 1000))
      in case s3_send e command of
           Inl err \<Rightarrow> (Inl err, [Store command])
         | Inr response \<Rightarrow>
             let allImages = map (imageInfo e config) (contents_of response)
             in (Inr (js_slice allImages offset (js_add offset maxKeys)), [Store command]))"

section \<open>\<open>pages/api/upload.ts\<close>\<close>

definition details_of :: "exn \<Rightarrow> string" where
  "details_of err = (case err of Error message \<Rightarrow> message | NonError \<Rightarrow> ''Unknown error'')"

definition allowedTypes :: "string list" where
  "allowedTypes = [''image/jpeg'', ''image/png'', ''image/gif'', ''image/webp'', ''image/svg+xml'']"

definition maxSize :: "env \<Rightarrow> jsnum" where
  "maxSize e =
     parseInt (or_str (or_opt (meta_env e ''MAX_FILE_SIZE'') (process_env e ''MAX_FILE_SIZE''))
                 ''10485760'')"

text \<open>
  \<open>formData.get(name) as string || dflt\<close>, then used as a string: a file in that field
  reads as \<open>[object File]\<close>.
\<close>

definition form_string_or :: "form_value option \<Rightarrow> string \<Rightarrow> string" where
  "form_string_or v dflt =
     (case v of
        None \<Rightarrow> dflt
      | Some (FormString s) \<Rightarrow> if s = [] then dflt else s
      | Some (FormFile f) \<Rightarrow> ''[object File]'')"

definition upload_options :: "(string \<times> form_value) list \<Rightarrow> UploadOptions" where
  "upload_options form =
     \<lparr>useHashName = Some (map_of form ''useHashName'' = Some (FormString ''true'')),
      compressToWebp = Some (map_of form ''enableWebpCompression'' = Some (FormString ''true'')),
      quality = Some (parseInt (form_string_or (map_of form ''quality'') ''80''))\<rparr>"

definition upload_failed :: "exn \<Rightarrow> Response" where
  "upload_failed err = \<lparr>status = 500, body = ErrorDetails ''Upload failed'' (details_of err)\<rparr>"

definition no_file :: Response where
  "no_file = \<lparr>status = 400, body = ErrorBody ''No file provided''\<rparr>"

definition invalid_type :: Response where
  "invalid_type = \<lparr>status = 400, body = ErrorBody ''Invalid file type. Only images are allowed.''\<rparr>"

text \<open>
  A text value in the \<open>file\<close> field has no \<open>size\<close> and no \<open>type\<close>: the size test is false
  and the type test fails.
\<close>

definition upload_POST :: "env \<Rightarrow> APIContext \<Rightarrow> Response \<times> effect list" where
  "upload_POST e context =
     (case requireAuth context of
        Some authError \<Rightarrow> (authError, [])
      | None \<Rightarrow>
          (case formData context of
             Inl err \<Rightarrow> (upload_failed err, [])
           | Inr form \<Rightarrow>
               (case map_of form ''file'' of
                  None \<Rightarrow> (no_file, [])
                | Some (FormString s) \<Rightarrow> if s = [] then (no_file, []) else (invalid_type, [])
                | Some (FormFile f) \<Rightarrow>
                    if js_gt (file_size f) (maxSize e)
                    then (\<lparr>status = 400, body = SizeLimitError (maxSize e)\<rparr>, [])
                    else if file_type f \<notin> set allowedTypes then (invalid_type, [])
                    else
                      (case uploadImage e (getR2Config e) (FromFile f) (file_name f)
                              (upload_options form) of
                         (Inl err, fx) \<Rightarrow> (upload_failed err, fx)
                       | (Inr info, fx) \<Rightarrow> (\<lparr>status = 200, body = SuccessImage info\<rparr>, fx)))))"

section \<open>\<open>pages/api/images.ts\<close>\<close>

definition images_GET :: "env \<Rightarrow> APIContext \<Rightarrow> Response \<times> effect list" where
  "images_GET e context =
     (let limit = parseInt (or_str (map_of (searchParams context) ''limit'') ''50'');
          pfx = or_str (map_of (searchParams context) ''prefix'') []
      in case listImages e (getR2Config e) pfx limit (Num 0) of
           (Inl err, fx) \<Rightarrow>
             (\<lparr>status = 500, body = ErrorDetails ''Failed to list images'' (details_of err)\<rparr>, fx)
         | (Inr images, fx) \<Rightarrow> (\<lparr>status = 200, body = SuccessImages images\<rparr>, fx))"

definition delete_failed :: "exn \<Rightarrow> Response" where
  "delete_failed err =
     \<lparr>status = 500, body = ErrorDetails ''Failed to delete image'' (details_of err)\<rparr>"

definition images_DELETE :: "env \<Rightarrow> APIContext \<Rightarrow> Response \<times> effect list" where
  "images_DELETE e context =
     (case jsonBody context of
        Inl err \<Rightarrow> (delete_failed err, [])
      | Inr JNull \<Rightarrow> (delete_failed (null_destructure e), [])
      | Inr j \<Rightarrow>
          (case json_field j ''key'' of
             None \<Rightarrow> (\<lparr>status = 400, body = ErrorBody ''No key provided''\<rparr>, [])
           | Some k \<Rightarrow>
               if \<not> truthy k then (\<lparr>status = 400, body = ErrorBody ''No key provided''\<rparr>, [])
               else
                 (case deleteImage e (getR2Config e) k of
                    (Inl err, fx) \<Rightarrow> (delete_failed err, fx)
                  | (Inr u, fx) \<Rightarrow>
                      (\<lparr>status = 200, body = SuccessMessage ''Image deleted successfully''\<rparr>,
                       fx))))"

section \<open>A store that holds a given listing\<close>

text \<open>
  The object store is a black box to the repository. For the claims that relate a
  listing to what the store holds, the store is one that holds the objects \<open>objs\<close> in
  its own order and answers a listing call with the first \<open>MaxKeys\<close> of those under the
  prefix, at most 1000 to a page, leaving \<open>Contents\<close> out when there are none; it refuses
  a \<open>MaxKeys\<close> that is not a count.
\<close>

definition bucket_send :: "s3_object list \<Rightarrow> s3_command \<Rightarrow> exn + s3_output" where
  "bucket_send objs command =
     (case command of
        PutObjectCommand b k bd ct cc \<Rightarrow> Inr PutObjectOutput
      | DeleteObjectCommand b k \<Rightarrow> Inr DeleteObjectOutput
      | ListObjectsV2Command b pfx NaN \<Rightarrow> Inl (Error ''InvalidArgument'')
      | ListObjectsV2Command b pfx PosInf \<Rightarrow> Inl (Error ''InvalidArgument'')
      | ListObjectsV2Command b pfx NegInf \<Rightarrow> Inl (Error ''InvalidArgument'')
      | ListObjectsV2Command b pfx (Num n) \<Rightarrow>
          if n < 0 then Inl (Error ''InvalidArgument'')
          else
            let page = take (nat (min n 1000)) (filter (\<lambda>object. prefix pfx (Key object)) objs)
            in Inr (ListObjectsV2Output (if page = [] then None else Some page)))"

section \<open>Reading the calls a handler made\<close>

fun store_calls :: "effect list \<Rightarrow> s3_command list" where
  "store_calls [] = []"
| "store_calls (Store command # fx) = command # store_calls fx"
| "store_calls (Codec b q # fx) = store_calls fx"

section \<open>An environment for the examples\<close>

text \<open>
  A small MIME table, a clock stopped at one reading, a random source that returns
  zero bytes, a codec that refuses a quality outside 1 to 100, as the real one does, and
  answers every other call with the same four bytes, and a store that holds the given
  objects. Only the bucket name and the public URL are configured.
\<close>

definition example_mime :: "(string \<times> string) list" where
  "example_mime =
     [(''image/jpeg'', ''jpeg''), (''image/png'', ''png''), (''image/gif'', ''gif''),
      (''image/webp'', ''webp''), (''image/svg+xml'', ''svg'')]"

definition example_env :: "s3_object list \<Rightarrow> env" where
  "example_env objs =
     \<lparr>meta_env = Map.empty,
      process_env = [''R2_BUCKET_NAME'' \<mapsto> ''images'', ''R2_PUBLIC_URL'' \<mapsto> ''https://cdn.example''],
      now = 1700000000000,
      randomBytes = (\<lambda>n. replicate n 0),
      mime_extension = map_of example_mime,
      mime_lookup = (\<lambda>path. map_of (map (\<lambda>(m, x). (x, m)) example_mime) (last_segment path)),
      sharp_webp =
        (\<lambda>buffer q.
           case q of
             Num k \<Rightarrow>
               if 1 \<le> k \<and> k \<le> 100 then Inr [0x52, 0x49, 0x46, 0x46]
               else Inl (Error ''Expected integer between 1 and 100 for quality'')
           | _ \<Rightarrow> Inl (Error ''Expected integer between 1 and 100 for quality'')),
      s3_send = bucket_send objs,
      null_destructure = Error ''Cannot destructure property of null''\<rparr>"

definition failing_codec :: "env \<Rightarrow> env" where
  "failing_codec e = e\<lparr>sharp_webp := (\<lambda>buffer q. Inl (Error ''Input buffer contains unsupported image format''))\<rparr>"

text \<open>The bytes of a one-pixel SVG: \<open><svg xmlns="http://www.w3.org/2000/svg" width="1" height="1"/>\<close>.\<close>

definition example_svg :: buffer where
  "example_svg =
     [0x3c, 0x73, 0x76, 0x67, 0x20, 0x78, 0x6d, 0x6c, 0x6e, 0x73, 0x3d, 0x22,
      0x68, 0x74, 0x74, 0x70, 0x3a, 0x2f, 0x2f, 0x77, 0x77, 0x77, 0x2e, 0x77,
      0x33, 0x2e, 0x6f, 0x72, 0x67, 0x2f, 0x32, 0x30, 0x30, 0x30, 0x2f, 0x73,
      0x76, 0x67, 0x22, 0x20, 0x77, 0x69, 0x64, 0x74, 0x68, 0x3d, 0x22, 0x31,
      0x22, 0x20, 0x68, 0x65, 0x69, 0x67, 0x68, 0x74, 0x3d, 0x22, 0x31, 0x22,
      0x2f, 0x3e]"

definition example_object :: "string \<Rightarrow> s3_object" where
  "example_object k = \<lparr>Key = k, Size = Some 4, LastModified = Some 1690000000000\<rparr>"

definition many_objects :: "nat \<Rightarrow> s3_object list" where
  "many_objects n = map (\<lambda>i. example_object (dec_nat i)) [0 ..< n]"

definition example_context :: APIContext where
  "example_context =
     \<lparr>cookies = Map.empty, searchParams = [], formData = Inl NonError, jsonBody = Inl NonError\<rparr>"

section \<open>Rounding to a double\<close>

text \<open>An integer up to \<open>2 ^ 53\<close> is a double; a larger one rounds to at least half of itself.\<close>

lemma to_double_small: "\<bar>i\<bar> \<le> 9007199254740992 \<Longrightarrow> to_double i = Num i"
  by (simp add: to_double_def)

lemma shift53_le: "0 < n \<Longrightarrow> 2 ^ shift53 n \<le> n"
proof (induction n rule: shift53.induct)
  case (1 n)
  show ?case
  proof (cases "n < 9007199254740992")
    case True
    with "1.prems" show ?thesis by (simp add: shift53.simps [of n])
  next
    case False
    then have "0 < n div 2" by simp
    with "1.IH" False have "2 ^ shift53 (n div 2) \<le> n div 2" by simp
    then have "2 * 2 ^ shift53 (n div 2) \<le> n" by simp
    with False show ?thesis by (simp add: shift53.simps [of n])
  qed
qed

lemma round_nat_lower: "n \<le> 2 * round_nat n"
proof (cases "n = 0")
  case True
  then show ?thesis by simp
next
  case False
  define e where "e = shift53 n"
  define q where "q = n div 2 ^ e"
  define r where "r = n mod 2 ^ e"
  have pow: "(2::nat) ^ e \<le> n" using False by (simp add: e_def shift53_le)
  have r: "r < 2 ^ e" by (simp add: r_def)
  have n: "n = q * 2 ^ e + r" unfolding q_def r_def by (rule div_mult_mod_eq [symmetric])
  have "1 \<le> q" using pow by (simp add: q_def div_greater_zero_iff Suc_le_eq)
  then have "2 ^ e \<le> q * 2 ^ e" by simp
  with r n have half: "n \<le> 2 * (q * 2 ^ e)" by linarith
  have "q * 2 ^ e \<le> round_nat n"
    by (simp add: round_nat_def Let_def e_def [symmetric] q_def [symmetric])
  with half show ?thesis by linarith
qed

lemma to_double_large:
  assumes "9007199254740992 < L"
  shows "to_double (int L) = PosInf \<or> (\<exists>k. to_double (int L) = Num k \<and> 1000 \<le> k)"
proof -
  have "L \<le> 2 * round_nat L" by (rule round_nat_lower)
  with assms have "1000 \<le> int (round_nat L)" by linarith
  with assms show ?thesis by (simp add: to_double_def Let_def)
qed

text \<open>
  Above \<open>2 ^ 53\<close> the odd integers are not doubles: \<open>2 ^ 53 + 1\<close> is a tie and goes to the
  even neighbour below, \<open>2 ^ 53 + 3\<close> to the one above.
\<close>

lemma parseInt_rounds:
  "parseInt ''9007199254740993'' = Num 9007199254740992
   \<and> parseInt ''9007199254740995'' = Num 9007199254740996
   \<and> parseInt ''-9007199254740993'' = Num (- 9007199254740992)"
  by (simp add: parseInt_def parse_radix_def parse_digits_def is_digit_def digit_val_def
      digits_value_def is_ws_def to_double_def round_nat_def shift53.simps)

lemma js_min_to_double: "js_min (to_double (int L)) (Num 1000) = Num (min (int L) 1000)"
proof (cases "L \<le> 9007199254740992")
  case True
  then show ?thesis by (simp add: to_double_small js_min_def)
next
  case False
  then have big: "9007199254740992 < L" by simp
  from to_double_large [OF big] big show ?thesis by (auto simp: js_min_def)
qed

section \<open>The session gate\<close>

text \<open>
  C1. A request counts as authenticated exactly when the \<open>auth-token\<close> cookie is there
  with a value that is not empty, whatever that value is: nothing compares it with the
  token that login issued. So \<open>GET /api/auth/verify\<close> answers 200 and
  \<open>{authenticated: true}\<close> for every such cookie, and 401 and \<open>{authenticated: false}\<close>
  otherwise, also with no cookie at all and right after logout has cleared it.
\<close>

theorem verify_GET_cookie_presence:
  "isAuthenticated context = (\<exists>v. cookies context ''auth-token'' = Some v \<and> v \<noteq> [])
   \<and> verify_GET context =
       (if \<exists>v. cookies context ''auth-token'' = Some v \<and> v \<noteq> []
        then \<lparr>status = 200, body = AuthStatus True\<rparr>
        else \<lparr>status = 401, body = AuthStatus False\<rparr>)
   \<and> (v \<noteq> [] \<longrightarrow>
        verify_GET (context\<lparr>cookies := (cookies context)(''auth-token'' \<mapsto> v)\<rparr>)
          = \<lparr>status = 200, body = AuthStatus True\<rparr>)
   \<and> verify_GET (context\<lparr>cookies := Map.empty\<rparr>) = \<lparr>status = 401, body = AuthStatus False\<rparr>
   \<and> verify_GET (context\<lparr>cookies := snd (logout_POST context)\<rparr>)
         = \<lparr>status = 401, body = AuthStatus False\<rparr>"
  by (auto simp: verify_GET_def isAuthenticated_def logout_POST_def split: option.splits)

theorem verify_GET_cookie_presence_witness:
  "''forged'' \<noteq> [] \<and>
   verify_GET (example_context\<lparr>cookies := (cookies example_context)(''auth-token'' \<mapsto> ''forged'')\<rparr>)
     = \<lparr>status = 200, body = AuthStatus True\<rparr>
   \<and> verify_GET (example_context\<lparr>cookies := snd (logout_POST example_context)\<rparr>)
     = \<lparr>status = 401, body = AuthStatus False\<rparr>"
  using verify_GET_cookie_presence [of example_context "''forged''"] by simp

text \<open>
  After a login with the configured password the cookie holds the hexadecimal token,
  which is not empty when the random source gives bytes, and verification answers 200.
\<close>

lemma to_hex_not_empty: "buf \<noteq> [] \<Longrightarrow> to_hex buf \<noteq> []"
  by (cases buf) (simp_all add: to_hex_def hex_byte_def)

lemma login_then_verify:
  assumes "getValue e ''ADMIN_PASSWORD'' = Some password" and "password \<noteq> []"
    and "jsonBody context = Inr (JObj [(''password'', JStr password)])"
    and "randomBytes e 32 \<noteq> []"
  shows "verify_GET (context\<lparr>cookies := snd (login_POST e context)\<rparr>)
           = \<lparr>status = 200, body = AuthStatus True\<rparr>"
  using assms to_hex_not_empty [of "randomBytes e 32"]
  by (simp add: login_POST_def json_field_def verify_GET_def isAuthenticated_def
      generateAuthToken_def)

text \<open>
  C2. The upload handler turns away every request whose session cookie is missing or
  empty with 401, having made no call. The listing and deletion handlers never look
  at the cookies: two requests that differ only there get the same response and the
  same store calls.
\<close>

theorem session_gate_only_on_upload:
  "(cookies context ''auth-token'' = None \<or> cookies context ''auth-token'' = Some [] \<longrightarrow>
      upload_POST e context = (\<lparr>status = 401, body = ErrorBody ''Authentication required''\<rparr>, []))
   \<and> images_GET e (context\<lparr>cookies := c\<rparr>) = images_GET e context
   \<and> images_DELETE e (context\<lparr>cookies := c\<rparr>) = images_DELETE e context"
  by (auto simp: upload_POST_def requireAuth_def isAuthenticated_def images_GET_def
      images_DELETE_def)

theorem session_gate_only_on_upload_witness:
  "cookies example_context ''auth-token'' = None
   \<and> upload_POST (example_env []) example_context
        = (\<lparr>status = 401, body = ErrorBody ''Authentication required''\<rparr>, [])
   \<and> images_GET (example_env []) (example_context\<lparr>cookies := [''auth-token'' \<mapsto> ''x'']\<rparr>)
        = images_GET (example_env []) example_context"
  using session_gate_only_on_upload
    [of example_context "example_env []" "[''auth-token'' \<mapsto> ''x'']"]
  by (simp add: example_context_def)

section \<open>The naming policy\<close>

text \<open>The class \<open>[a-zA-Z0-9.-]\<close> of the pattern, character by character.\<close>

lemma char_in_codes:
  assumes "(of_char c :: nat) \<in> set (map of_char s)"
  shows "c \<in> set s"
  using assms by auto

lemma lower_codes: "map of_char ''abcdefghijklmnopqrstuvwxyz'' = [97 ..< (123::nat)]"
  by simp

lemma upper_codes: "map of_char ''ABCDEFGHIJKLMNOPQRSTUVWXYZ'' = [65 ..< (91::nat)]"
  by simp

lemma digit_codes: "map of_char ''0123456789'' = [48 ..< (58::nat)]"
  by simp

lemma name_char_iff:
  "name_char c = (c \<in> set (''abcdefghijklmnopqrstuvwxyz'' @ ''ABCDEFGHIJKLMNOPQRSTUVWXYZ'' @ ''0123456789'' @ ''.-''))"
proof
  assume "name_char c"
  then consider "97 \<le> (of_char c :: nat) \<and> (of_char c :: nat) \<le> 122"
    | "65 \<le> (of_char c :: nat) \<and> (of_char c :: nat) \<le> 90"
    | "48 \<le> (of_char c :: nat) \<and> (of_char c :: nat) \<le> 57"
    | "c = CHR ''.'' \<or> c = CHR ''-''"
    by (auto simp: name_char_def Let_def)
  then show "c \<in> set (''abcdefghijklmnopqrstuvwxyz'' @ ''ABCDEFGHIJKLMNOPQRSTUVWXYZ'' @ ''0123456789'' @ ''.-'')"
  proof cases
    case 1
    then have "(of_char c :: nat) \<in> set [97 ..< 123]" by (simp del: upt_rec_numeral)
    then have "c \<in> set ''abcdefghijklmnopqrstuvwxyz''"
      unfolding lower_codes [symmetric] by (rule char_in_codes)
    then show ?thesis by (simp only: set_append Un_iff simp_thms)
  next
    case 2
    then have "(of_char c :: nat) \<in> set [65 ..< 91]" by (simp del: upt_rec_numeral)
    then have "c \<in> set ''ABCDEFGHIJKLMNOPQRSTUVWXYZ''"
      unfolding upper_codes [symmetric] by (rule char_in_codes)
    then show ?thesis by (simp only: set_append Un_iff simp_thms)
  next
    case 3
    then have "(of_char c :: nat) \<in> set [48 ..< 58]" by (simp del: upt_rec_numeral)
    then have "c \<in> set ''0123456789''"
      unfolding digit_codes [symmetric] by (rule char_in_codes)
    then show ?thesis by (simp only: set_append Un_iff simp_thms)
  next
    case 4
    then show ?thesis by auto
  qed
next
  assume "c \<in> set (''abcdefghijklmnopqrstuvwxyz'' @ ''ABCDEFGHIJKLMNOPQRSTUVWXYZ'' @ ''0123456789'' @ ''.-'')"
  then show "name_char c"
    by (auto simp: name_char_def)
qed

text \<open>
  C8. In default mode the name is the timestamp in decimal, an underscore, and the
  original filename with every character outside \<open>[A-Za-z0-9.-]\<close> replaced by an
  underscore; \<open>a b.png\<close> at timestamp \<open>T\<close> gives \<open>T_a_b.png\<close>.
\<close>

theorem generateFileName_default_mode:
  "generateFileName e originalName False
     = num_to_string (now e) @ ''_''
       @ map (\<lambda>c. if c \<in> set (''abcdefghijklmnopqrstuvwxyz'' @ ''ABCDEFGHIJKLMNOPQRSTUVWXYZ''
                                   @ ''0123456789'' @ ''.-'')
                   then c else CHR ''_'') originalName
   \<and> generateFileName e ''a b.png'' False = num_to_string (now e) @ ''_a_b.png''"
  unfolding generateFileName_def cleanName_def Let_def name_char_iff by simp

theorem generateFileName_default_mode_witness:
  "generateFileName (example_env []) ''a b.png'' False = ''1700000000000_a_b.png''"
  using generateFileName_default_mode [of "example_env []" "''a b.png''"]
  by (simp add: example_env_def num_to_string_def dec_nat.simps digit_char_def)

section \<open>The upload handler's checks\<close>

lemmas parse_defs =
  parseInt_def parse_radix_def parse_digits_def is_digit_def digit_val_def digits_value_def
  is_ws_def to_double_def

lemma maxSize_default:
  "meta_env e ''MAX_FILE_SIZE'' = None \<Longrightarrow> process_env e ''MAX_FILE_SIZE'' = None \<Longrightarrow> maxSize e = Num 10485760"
  by (simp add: maxSize_def or_opt_def or_str_def parse_defs)

text \<open>
  C5, as stated, fails: a request with no session cookie and a file of 10485761 bytes
  (one more than the default maximum) is answered 401 by the session gate, not 400.
\<close>

theorem upload_POST_oversize_counterexample:
  "maxSize (example_env []) = Num 10485760
   \<and> js_gt (file_size \<lparr>file_name = ''big.png'', file_type = ''image/png'',
                        file_bytes = replicate 10485761 0\<rparr>) (maxSize (example_env []))
   \<and> fst (upload_POST (example_env [])
        (example_context\<lparr>formData := Inr [(''file'', FormFile
            \<lparr>file_name = ''big.png'', file_type = ''image/png'',
              file_bytes = replicate 10485761 0\<rparr>)]\<rparr>))
      = \<lparr>status = 401, body = ErrorBody ''Authentication required''\<rparr>
   \<and> status (fst (upload_POST (example_env [])
        (example_context\<lparr>formData := Inr [(''file'', FormFile
            \<lparr>file_name = ''big.png'', file_type = ''image/png'',
              file_bytes = replicate 10485761 0\<rparr>)]\<rparr>))) \<noteq> 400"
  by (simp add: maxSize_default example_env_def example_context_def upload_POST_def requireAuth_def
      isAuthenticated_def js_gt_def file_size_def)

text \<open>
  C5, amended. For every upload request whose file is strictly larger than the
  configured maximum (the default is 10485760 bytes) no call is made, so nothing is
  written to the store; and when the request carries a session cookie that is not empty,
  the answer is the 400 size-limit error.
\<close>

theorem upload_POST_oversize:
  assumes "formData context = Inr form"
    and "map_of form ''file'' = Some (FormFile f)"
    and "maxSize e = Num m"
    and "m < int (length (file_bytes f))"
  shows "snd (upload_POST e context) = []
    \<and> (isAuthenticated context \<longrightarrow>
         fst (upload_POST e context) = \<lparr>status = 400, body = SizeLimitError (Num m)\<rparr>)"
  using assms
  by (simp add: upload_POST_def requireAuth_def js_gt_def file_size_def)

theorem upload_POST_oversize_witness:
  "fst (upload_POST (example_env [])
        (example_context\<lparr>cookies := [''auth-token'' \<mapsto> ''t''], formData := Inr [(''file'', FormFile
            \<lparr>file_name = ''big.png'', file_type = ''image/png'',
              file_bytes = replicate 10485761 0\<rparr>)]\<rparr>))
      = \<lparr>status = 400, body = SizeLimitError (Num 10485760)\<rparr>
   \<and> snd (upload_POST (example_env [])
        (example_context\<lparr>cookies := [''auth-token'' \<mapsto> ''t''], formData := Inr [(''file'', FormFile
            \<lparr>file_name = ''big.png'', file_type = ''image/png'',
              file_bytes = replicate 10485761 0\<rparr>)]\<rparr>)) = []"
  using upload_POST_oversize [of
      "example_context\<lparr>cookies := [''auth-token'' \<mapsto> ''t''], formData := Inr [(''file'', FormFile
            \<lparr>file_name = ''big.png'', file_type = ''image/png'',
              file_bytes = replicate 10485761 0\<rparr>)]\<rparr>"
      "[(''file'', FormFile \<lparr>file_name = ''big.png'', file_type = ''image/png'',
              file_bytes = replicate 10485761 0\<rparr>)]"
      "\<lparr>file_name = ''big.png'', file_type = ''image/png'', file_bytes = replicate 10485761 0\<rparr>"
      "example_env []" 10485760]
  by (simp add: maxSize_default example_env_def example_context_def isAuthenticated_def)

text \<open>
  C6, as stated, fails twice: a request with no session cookie and a PDF is answered
  401 by the session gate, and an authenticated request with a PDF larger than the
  maximum gets the size-limit error, because the size is checked first.
\<close>

theorem upload_POST_bad_type_counterexample:
  "''application/pdf'' \<notin> set allowedTypes
   \<and> fst (upload_POST (example_env [])
        (example_context\<lparr>formData := Inr [(''file'', FormFile
            \<lparr>file_name = ''a.pdf'', file_type = ''application/pdf'', file_bytes = [1, 2, 3]\<rparr>)]\<rparr>))
      = \<lparr>status = 401, body = ErrorBody ''Authentication required''\<rparr>
   \<and> fst (upload_POST (example_env [])
        (example_context\<lparr>cookies := [''auth-token'' \<mapsto> ''t''], formData := Inr [(''file'', FormFile
            \<lparr>file_name = ''big.pdf'', file_type = ''application/pdf'',
              file_bytes = replicate 10485761 0\<rparr>)]\<rparr>))
      = \<lparr>status = 400, body = SizeLimitError (Num 10485760)\<rparr>
   \<and> \<lparr>status = 400, body = SizeLimitError (Num 10485760)\<rparr>
      \<noteq> \<lparr>status = 400, body = ErrorBody ''Invalid file type. Only images are allowed.''\<rparr>"
  by (simp add: maxSize_default example_env_def example_context_def upload_POST_def requireAuth_def
      isAuthenticated_def js_gt_def file_size_def allowedTypes_def)

text \<open>
  C6, amended. For every upload request whose file's declared MIME type is not one of
  the five allowed, no call is made, so nothing is written to the store; and when the
  request carries a session cookie that is not empty and the file is not larger than
  the maximum, the answer is the 400 unsupported-type error.
\<close>

theorem upload_POST_bad_type:
  assumes "formData context = Inr form"
    and "map_of form ''file'' = Some (FormFile f)"
    and "file_type f \<notin> {''image/jpeg'', ''image/png'', ''image/gif'', ''image/webp'', ''image/svg+xml''}"
  shows "snd (upload_POST e context) = []
    \<and> (isAuthenticated context \<and> \<not> js_gt (file_size f) (maxSize e) \<longrightarrow>
         fst (upload_POST e context)
           = \<lparr>status = 400, body = ErrorBody ''Invalid file type. Only images are allowed.''\<rparr>)"
  using assms
  by (simp add: upload_POST_def requireAuth_def allowedTypes_def invalid_type_def)

theorem upload_POST_bad_type_witness:
  "''application/pdf'' \<notin> {''image/jpeg'', ''image/png'', ''image/gif'', ''image/webp'', ''image/svg+xml''}
   \<and> upload_POST (example_env [])
        (example_context\<lparr>cookies := [''auth-token'' \<mapsto> ''t''], formData := Inr [(''file'', FormFile
            \<lparr>file_name = ''a.pdf'', file_type = ''application/pdf'', file_bytes = [1, 2, 3]\<rparr>)]\<rparr>)
      = (\<lparr>status = 400, body = ErrorBody ''Invalid file type. Only images are allowed.''\<rparr>, [])"
  using upload_POST_bad_type [of
      "example_context\<lparr>cookies := [''auth-token'' \<mapsto> ''t''], formData := Inr [(''file'', FormFile
            \<lparr>file_name = ''a.pdf'', file_type = ''application/pdf'', file_bytes = [1, 2, 3]\<rparr>)]\<rparr>"
      "[(''file'', FormFile \<lparr>file_name = ''a.pdf'', file_type = ''application/pdf'',
                              file_bytes = [1, 2, 3]\<rparr>)]"
      "\<lparr>file_name = ''a.pdf'', file_type = ''application/pdf'', file_bytes = [1, 2, 3]\<rparr>"
      "example_env []"]
  by (simp add: maxSize_default example_env_def example_context_def isAuthenticated_def
      js_gt_def file_size_def prod_eq_iff)

section \<open>The image normalizer\<close>

text \<open>
  C3 does not hold of \<open>processImage\<close>: it has no test for SVG, so with the compress flag
  set an SVG goes to the codec like any other \<open>image/\<close> type, and when the codec
  succeeds the result is the codec's bytes as \<open>image/webp\<close>. In the example the input
  is a one-pixel SVG.
\<close>

theorem processImage_reencodes_svg:
  assumes "compressToWebp options = Some True"
    and "sharp_webp e buffer (or_num (quality options) (Num 80)) = Inr webpBuffer"
  shows "processImage e buffer ''image/svg+xml'' options
     = (\<lparr>p_buffer = webpBuffer, p_mimeType = ''image/webp'', p_ext = ''webp''\<rparr>,
        [Codec buffer (or_num (quality options) (Num 80))])"
  using assms by (simp add: processImage_def startsWith_def Let_def)

theorem processImage_reencodes_svg_witness:
  "processImage (example_env []) example_svg ''image/svg+xml''
     \<lparr>useHashName = Some False, compressToWebp = Some True, quality = Some (Num 80)\<rparr>
   = (\<lparr>p_buffer = [0x52, 0x49, 0x46, 0x46], p_mimeType = ''image/webp'', p_ext = ''webp''\<rparr>,
      [Codec example_svg (Num 80)])
   \<and> p_buffer (fst (processImage (example_env []) example_svg ''image/svg+xml''
        \<lparr>useHashName = Some False, compressToWebp = Some True, quality = Some (Num 80)\<rparr>))
      \<noteq> example_svg"
  using processImage_reencodes_svg [of
      "\<lparr>useHashName = Some False, compressToWebp = Some True, quality = Some (Num 80)\<rparr>"
      "example_env []" example_svg "[0x52, 0x49, 0x46, 0x46]"]
  by (simp add: example_env_def or_num_def example_svg_def)

lemma processImage_codec_fails:
  assumes "sharp_webp e buffer (or_num (quality options) (Num 80)) = Inl err"
  shows "fst (processImage e buffer mime options) = unprocessed e buffer mime"
  using assms by (simp add: processImage_def Let_def)

lemma processImage_off:
  "processImage e buffer mime (options\<lparr>compressToWebp := Some False\<rparr>) = (unprocessed e buffer mime, [])"
  by (simp add: processImage_def)

lemma store_calls_append: "store_calls (fx @ gx) = store_calls fx @ store_calls gx"
  by (induction fx rule: store_calls.induct) simp_all

lemma store_calls_processImage: "store_calls (snd (processImage e buffer mime options)) = []"
  by (simp add: processImage_def Let_def split: sum.splits)

text \<open>
  C7. When the codec raises on the input, \<open>processImage\<close> returns the original bytes, the
  original MIME type and the extension derived from it; \<open>uploadImage\<close> then returns what
  it returns with compression switched off and sends the store the same command, and
  the only error it can return is one the store raised.
\<close>

theorem encode_failure_falls_back:
  assumes "sharp_webp e (case src of FromFile f \<Rightarrow> file_bytes f | FromBuffer b \<Rightarrow> b)
             (or_num (quality options) (Num 80)) = Inl err"
  shows "(\<forall>mime. sharp_webp e buffer (or_num (quality options) (Num 80)) = Inl err \<longrightarrow>
            fst (processImage e buffer mime options)
              = \<lparr>p_buffer = buffer, p_mimeType = mime,
                  p_ext = or_str (mime_extension e mime) ''bin''\<rparr>)
    \<and> fst (uploadImage e config src originalName options)
        = fst (uploadImage e config src originalName (options\<lparr>compressToWebp := Some False\<rparr>))
    \<and> store_calls (snd (uploadImage e config src originalName options))
        = store_calls (snd (uploadImage e config src originalName
                              (options\<lparr>compressToWebp := Some False\<rparr>)))
    \<and> (\<forall>x. fst (uploadImage e config src originalName options) = Inl x \<longrightarrow>
          (\<exists>command \<in> set (store_calls (snd (uploadImage e config src originalName options))).
             s3_send e command = Inl x))"
proof -
  obtain buffer' mime' name' where src:
    "(case src of
        FromFile f \<Rightarrow> (file_bytes f, file_type f, file_name f)
      | FromBuffer b \<Rightarrow>
          (b, or_str (mime_lookup e originalName) ''application/octet-stream'', originalName))
     = (buffer', mime', name')"
    by (cases src) simp_all
  have buf: "buffer' = (case src of FromFile f \<Rightarrow> file_bytes f | FromBuffer b \<Rightarrow> b)"
    using src by (cases src) simp_all
  have fails: "sharp_webp e buffer' (or_num (quality options) (Num 80)) = Inl err"
    using assms buf by simp
  obtain fx where p: "processImage e buffer' mime' options = (unprocessed e buffer' mime', fx)"
    and fx: "store_calls fx = []"
    using processImage_codec_fails [OF fails, of mime'] store_calls_processImage [of e buffer' mime' options]
    by (cases "processImage e buffer' mime' options") simp
  have 1: "\<forall>mime. sharp_webp e buffer (or_num (quality options) (Num 80)) = Inl err \<longrightarrow>
            fst (processImage e buffer mime options)
              = \<lparr>p_buffer = buffer, p_mimeType = mime,
                  p_ext = or_str (mime_extension e mime) ''bin''\<rparr>"
    by (simp add: processImage_def Let_def unprocessed_def)
  have 2: "fst (uploadImage e config src originalName options)
        = fst (uploadImage e config src originalName (options\<lparr>compressToWebp := Some False\<rparr>))"
    by (simp add: uploadImage_def src p processImage_off Let_def split: sum.splits)
  have 3: "store_calls (snd (uploadImage e config src originalName options))
        = store_calls (snd (uploadImage e config src originalName
                              (options\<lparr>compressToWebp := Some False\<rparr>)))"
    by (simp add: uploadImage_def src p processImage_off Let_def store_calls_append fx split: sum.splits)
  have 4: "\<forall>x. fst (uploadImage e config src originalName options) = Inl x \<longrightarrow>
          (\<exists>command \<in> set (store_calls (snd (uploadImage e config src originalName options))).
             s3_send e command = Inl x)"
    by (simp add: uploadImage_def src p Let_def store_calls_append fx split: sum.splits)
  from 1 2 3 4 show ?thesis by blast
qed

theorem encode_failure_falls_back_witness:
  "sharp_webp (failing_codec (example_env [])) [1, 2, 3] (Num 80)
     = Inl (Error ''Input buffer contains unsupported image format'')
   \<and> uploadImage (failing_codec (example_env [])) (getR2Config (example_env []))
      (FromFile \<lparr>file_name = ''cat.png'', file_type = ''image/png'', file_bytes = [1, 2, 3]\<rparr>)
      ''cat.png'' \<lparr>useHashName = Some False, compressToWebp = Some True, quality = Some (Num 80)\<rparr>
   = (Inr \<lparr>key = ''1700000000000_cat.png'', url = ''https://cdn.example/1700000000000_cat.png'',
           size' = 3, mimeType = ''image/png'', uploadedAt = 1700000000000\<rparr>,
      [Codec [1, 2, 3] (Num 80),
       Store (PutObjectCommand ''images'' ''1700000000000_cat.png'' [1, 2, 3] ''image/png''
                ''public, max-age=31536000'')])"
  using encode_failure_falls_back [of "failing_codec (example_env [])"
      "FromFile \<lparr>file_name = ''cat.png'', file_type = ''image/png'', file_bytes = [1, 2, 3]\<rparr>"
      "\<lparr>useHashName = Some False, compressToWebp = Some True, quality = Some (Num 80)\<rparr>"
      "Error ''Input buffer contains unsupported image format''" "[1, 2, 3]"
      "getR2Config (example_env [])" "''cat.png''"]
  by (simp add: failing_codec_def example_env_def getR2Config_def getValue_def or_opt_def or_str_def
      uploadImage_def processImage_def startsWith_def unprocessed_def example_mime_def
      generateFileName_def replace_ext_def last_segment_def cleanName_def name_char_def
      num_to_string_def dec_nat.simps digit_char_def or_num_def bucket_send_def Let_def)









section \<open>Listing\<close>

lemma take_min_length: "take (min n (length xs)) xs = take n xs"
  by (cases "n \<le> length xs") (simp_all add: min_def)

lemma js_slice_from_zero: "js_slice xs (Num 0) (Num (int L)) = take L xs"
  by (simp add: js_slice_def rel_index_def take_min_length)

lemma js_slice_to_double:
  assumes "length xs \<le> 1000"
  shows "js_slice xs (Num 0) (to_double (int L)) = take L xs"
proof (cases "L \<le> 9007199254740992")
  case True
  then show ?thesis by (simp add: to_double_small js_slice_from_zero)
next
  case False
  then have big: "9007199254740992 < L" by simp
  from to_double_large [OF big] assms big show ?thesis
    by (auto simp: js_slice_def rel_index_def)
qed

lemma contents_of_page:
  "contents_of (ListObjectsV2Output (if page = [] then None else Some page)) = page"
  by (simp add: contents_of_def)

lemma bucket_send_list:
  "bucket_send objs (ListObjectsV2Command b pfx (Num (min (int L) 1000)))
     = Inr (ListObjectsV2Output
              (if take (min L 1000) (filter (\<lambda>object. prefix pfx (Key object)) objs) = [] then None
               else Some (take (min L 1000) (filter (\<lambda>object. prefix pfx (Key object)) objs))))"
proof -
  have n: "nat (min (min (int L) 1000) 1000) = min L 1000" by simp
  have "\<not> min (int L) 1000 < 0" by simp
  then show ?thesis
    unfolding bucket_send_def by (simp only: s3_command.case jsnum.case if_False Let_def n)
qed

lemma listImages_bucket:
  assumes "s3_send e = bucket_send objs"
  shows "listImages e config pfx (Num (int L)) (Num 0)
     = (Inr (map (imageInfo e config)
               (take (min L 1000) (filter (\<lambda>object. prefix pfx (Key object)) objs))),
        [Store (ListObjectsV2Command (bucketName config) pfx (Num (min (int L) 1000)))])"
proof -
  have cmd: "js_min (js_add (Num (int L)) (Num 0)) (Num 1000) = Num (min (int L) 1000)"
    by (simp add: js_add_def js_min_to_double)
  have add: "js_add (Num 0) (Num (int L)) = to_double (int L)"
    by (simp add: js_add_def)
  have tk: "take L (take (min L 1000) xs) = take (min L 1000) xs" for xs :: "'a list"
    by simp
  have sl: "js_slice (map (imageInfo e config) (take (min L 1000) xs)) (Num 0) (to_double (int L))
      = map (imageInfo e config) (take (min L 1000) xs)" for xs
    by (simp add: js_slice_to_double take_map [symmetric] tk del: take_map)
  show ?thesis
    unfolding listImages_def Let_def assms cmd add bucket_send_list
    by (simp only: sum.case contents_of_page sl)
qed

lemma example_env_send: "s3_send (example_env objs) = bucket_send objs"
  by (simp add: example_env_def)

text \<open>
  C9, as stated, fails: over a store that holds 1001 objects, a call with offset 0 and
  limit 1001 returns 1000 images, not the first \<open>min 1001 1001\<close>, because \<open>MaxKeys\<close> is
  capped at 1000.
\<close>

theorem listImages_offset_zero_counterexample:
  "length (many_objects 1001) = 1001
   \<and> fst (listImages (example_env (many_objects 1001)) (getR2Config (example_env (many_objects 1001)))
          [] (Num 1001) (Num 0))
      = Inr (map (imageInfo (example_env (many_objects 1001))
                   (getR2Config (example_env (many_objects 1001))))
               (take 1000 (many_objects 1001)))
   \<and> fst (listImages (example_env (many_objects 1001)) (getR2Config (example_env (many_objects 1001)))
          [] (Num 1001) (Num 0))
      \<noteq> Inr (map (imageInfo (example_env (many_objects 1001))
                   (getR2Config (example_env (many_objects 1001))))
               (take (min 1001 (length (many_objects 1001))) (many_objects 1001)))"
proof -
  have len: "length (many_objects 1001) = 1001" by (simp add: many_objects_def)
  have run: "fst (listImages (example_env (many_objects 1001)) (getR2Config (example_env (many_objects 1001)))
          [] (Num 1001) (Num 0))
      = Inr (map (imageInfo (example_env (many_objects 1001))
                   (getR2Config (example_env (many_objects 1001))))
               (take 1000 (many_objects 1001)))"
    using listImages_bucket [OF example_env_send, of "many_objects 1001" _ "[]" 1001] by simp
  have "length (map (imageInfo (example_env (many_objects 1001))
                   (getR2Config (example_env (many_objects 1001))))
               (take 1000 (many_objects 1001)))
        \<noteq> length (map (imageInfo (example_env (many_objects 1001))
                   (getR2Config (example_env (many_objects 1001))))
               (take (min 1001 (length (many_objects 1001))) (many_objects 1001)))"
    by (simp add: len)
  then have "map (imageInfo (example_env (many_objects 1001))
                   (getR2Config (example_env (many_objects 1001))))
               (take 1000 (many_objects 1001))
        \<noteq> map (imageInfo (example_env (many_objects 1001))
                   (getR2Config (example_env (many_objects 1001))))
               (take (min 1001 (length (many_objects 1001))) (many_objects 1001))"
    by metis
  with len run show ?thesis by simp
qed

text \<open>
  C9, amended. Over a store that holds a listing, a call with offset 0 and limit \<open>L\<close>
  returns exactly the first \<open>min (min L 1000) n\<close> objects under the prefix, in the store's
  order, where \<open>n\<close> is how many there are; with limit 2 over 5 objects, the first 2.
\<close>

theorem listImages_offset_zero:
  assumes "s3_send e = bucket_send objs"
  shows "fst (listImages e config pfx (Num (int L)) (Num 0))
     = Inr (map (imageInfo e config)
              (take (min (min L 1000) (length (filter (\<lambda>object. prefix pfx (Key object)) objs)))
                 (filter (\<lambda>object. prefix pfx (Key object)) objs)))"
  by (simp add: listImages_bucket [OF assms] take_min_length)

theorem listImages_offset_zero_witness:
  "s3_send (example_env (map example_object [''a.png'', ''b.png'', ''c.png'', ''d.png'', ''e.png'']))
     = bucket_send (map example_object [''a.png'', ''b.png'', ''c.png'', ''d.png'', ''e.png''])
   \<and> fst (listImages (example_env (map example_object [''a.png'', ''b.png'', ''c.png'', ''d.png'', ''e.png'']))
        \<lparr>accountId = [], accessKeyId = [], secretAccessKey = [], bucketName = ''images'',
          endpoint = [], publicUrl = ''https://cdn.example''\<rparr> [] (Num 2) (Num 0))
     = Inr [\<lparr>key = ''a.png'', url = ''https://cdn.example/a.png'', size' = 4,
              mimeType = ''image/png'', uploadedAt = 1690000000000\<rparr>,
            \<lparr>key = ''b.png'', url = ''https://cdn.example/b.png'', size' = 4,
              mimeType = ''image/png'', uploadedAt = 1690000000000\<rparr>]"
  using listImages_offset_zero [OF example_env_send,
      of "map example_object [''a.png'', ''b.png'', ''c.png'', ''d.png'', ''e.png'']"
         "\<lparr>accountId = [], accessKeyId = [], secretAccessKey = [], bucketName = ''images'',
          endpoint = [], publicUrl = ''https://cdn.example''\<rparr>" "[]" 2]
  by (simp add: example_env_def imageInfo_def example_object_def example_mime_def or_str_def
      last_segment_def)

text \<open>
  C4 does not hold of the handler: it reads \<open>limit\<close> and \<open>prefix\<close> only, so two requests
  that differ only in \<open>offset\<close> get the same answer and make the same store call. In the
  example \<open>GET /api/images?limit=2&offset=1\<close> over five objects asks the store for 2
  objects and returns the first two, the slice from 0 to 2; the claim's slice from 1 to 3
  would start at the second object.
\<close>

theorem images_GET_drops_offset:
  assumes "map_of ps ''limit'' = map_of qs ''limit''"
    and "map_of ps ''prefix'' = map_of qs ''prefix''"
  shows "images_GET e (context\<lparr>searchParams := ps\<rparr>) = images_GET e (context\<lparr>searchParams := qs\<rparr>)"
  using assms by (simp add: images_GET_def)

theorem images_GET_drops_offset_witness:
  "images_GET (example_env (map example_object [''a.png'', ''b.png'', ''c.png'', ''d.png'', ''e.png'']))
      (example_context\<lparr>searchParams := [(''limit'', ''2''), (''offset'', ''1'')]\<rparr>)
   = (\<lparr>status = 200,
       body = SuccessImages
         [\<lparr>key = ''a.png'', url = ''https://cdn.example/a.png'', size' = 4,
              mimeType = ''image/png'', uploadedAt = 1690000000000\<rparr>,
          \<lparr>key = ''b.png'', url = ''https://cdn.example/b.png'', size' = 4,
              mimeType = ''image/png'', uploadedAt = 1690000000000\<rparr>]\<rparr>,
      [Store (ListObjectsV2Command ''images'' [] (Num 2))])
   \<and> images_GET (example_env (map example_object [''a.png'', ''b.png'', ''c.png'', ''d.png'', ''e.png'']))
      (example_context\<lparr>searchParams := [(''limit'', ''2''), (''offset'', ''1'')]\<rparr>)
     = images_GET (example_env (map example_object [''a.png'', ''b.png'', ''c.png'', ''d.png'', ''e.png'']))
      (example_context\<lparr>searchParams := [(''limit'', ''2''), (''offset'', ''0'')]\<rparr>)
   \<and> fst (images_GET (example_env (map example_object [''a.png'', ''b.png'', ''c.png'', ''d.png'', ''e.png'']))
      (example_context\<lparr>searchParams := [(''limit'', ''2''), (''offset'', ''1'')]\<rparr>))
     \<noteq> \<lparr>status = 200,
         body = SuccessImages
           [\<lparr>key = ''b.png'', url = ''https://cdn.example/b.png'', size' = 4,
              mimeType = ''image/png'', uploadedAt = 1690000000000\<rparr>,
            \<lparr>key = ''c.png'', url = ''https://cdn.example/c.png'', size' = 4,
              mimeType = ''image/png'', uploadedAt = 1690000000000\<rparr>]\<rparr>"
  using images_GET_drops_offset [of "[(''limit'', ''2''), (''offset'', ''1'')]"
      "[(''limit'', ''2''), (''offset'', ''0'')]"
      "example_env (map example_object [''a.png'', ''b.png'', ''c.png'', ''d.png'', ''e.png''])"
      example_context]
  by (simp add: images_GET_def example_context_def parse_defs or_str_def listImages_def
      example_env_def getR2Config_def getValue_def or_opt_def js_add_def js_min_def bucket_send_def
      contents_of_def js_slice_def rel_index_def imageInfo_def example_object_def example_mime_def
      last_segment_def Let_def)

end
